theory Spec2Isabelle
  imports Complex_Main "HOL-Library.Sublist"
begin

section \<open>Python values and errors\<close>

text \<open>
  A Python \<open>float\<close> is modelled by the real number it denotes. Order comparisons of
  finite floats are exact on these numbers; \<open>float(s)\<close> of a decimal literal is the
  double nearest to the decimal value of \<open>s\<close>, and the model keeps the decimal value
  itself. Rounding is monotone and maps 0 to 0, so signs and equalities between
  decimal literals carry over; a literal beyond the range of the doubles is read as
  the infinity of its sign. NaN and the infinities are outside the model.

  A Python \<open>str\<close> is a \<open>string\<close> of ASCII characters, so \<^verbatim>\<open>\d\<close> is one of the
  ten ASCII digits.

  The calls of \<open>self.log\<close> write to the log and have no part in any result; they are
  left out.

  Every exception that the modelled code can meet is a subclass of \<open>Exception\<close>,
  so \<open>except Exception\<close> catches each value of the type \<open>error\<close>.
\<close>

datatype error =
    ValueError
  | TypeError
  | IndexError
  | JSONDecodeError
  | ValidationError
  | BackendError string

text \<open>Sequencing of steps that may raise: the first exception propagates.\<close>

definition bind_error :: "error + 'a \<Rightarrow> ('a \<Rightarrow> error + 'b) \<Rightarrow> error + 'b" where
  "bind_error m f = (case m of Inl e \<Rightarrow> Inl e | Inr x \<Rightarrow> f x)"

section \<open>Regular-expression search\<close>

text \<open>
  The fragment of Python's \<open>re\<close> that \<open>FrontierAgent.get_price\<close> uses: character
  classes, a greedy star over a class, a greedy option, sequence and ordered choice.
  \<open>rests r s\<close> lists, in the order in which the backtracking matcher tries them, the
  suffixes of \<open>s\<close> left over by each way of matching \<open>r\<close> at the start of \<open>s\<close>;
  the head of the list is the match that \<open>re\<close> reports.
\<close>

datatype regex =
    Chars "char list"
  | Star "char list"
  | Opt regex
  | Seq regex regex
  | Alt regex regex

fun star_rests :: "char list \<Rightarrow> string \<Rightarrow> string list" where
  "star_rests cs [] = [[]]"
| "star_rests cs (c # s) = (if c \<in> set cs then star_rests cs s @ [c # s] else [c # s])"

fun rests :: "regex \<Rightarrow> string \<Rightarrow> string list" where
  "rests (Chars cs) s = (case s of [] \<Rightarrow> [] | c # t \<Rightarrow> if c \<in> set cs then [t] else [])"
| "rests (Star cs) s = star_rests cs s"
| "rests (Opt r) s = rests r s @ [s]"
| "rests (Seq a b) s = concat (map (rests b) (rests a s))"
| "rests (Alt a b) s = rests a s @ rests b s"

text \<open>\<open>re.search\<close>: the match at the leftmost position that has one, as its text.\<close>

fun re_search :: "regex \<Rightarrow> string \<Rightarrow> string option" where
  "re_search r [] = (case rests r [] of [] \<Rightarrow> None | rest # _ \<Rightarrow> Some [])"
| "re_search r (c # t) =
     (case rests r (c # t) of
        [] \<Rightarrow> re_search r t
      | rest # _ \<Rightarrow> Some (take (length (c # t) - length rest) (c # t)))"

definition digits :: "char list" where
  "digits = ''0123456789''"

definition Plus :: "char list \<Rightarrow> regex" where
  "Plus cs = Seq (Chars cs) (Star cs)"

text \<open>The pattern \<^verbatim>\<open>[-+]?\d*\.\d+|\d+\<close>: the choice binds weakest.\<close>

definition PRICE_RE :: regex where
  "PRICE_RE =
     Alt (Seq (Opt (Chars ''-+'')) (Seq (Star digits) (Seq (Chars ''.'') (Plus digits))))
         (Plus digits)"


section \<open>Reading a decimal literal\<close>

definition digit_val :: "char \<Rightarrow> nat" where
  "digit_val c = of_char c - 48"

definition digits_val :: "string \<Rightarrow> nat" where
  "digits_val ds = foldl (\<lambda>a c. 10 * a + digit_val c) 0 ds"

text \<open>
  \<open>float(s)\<close> on the plain decimal literals: an optional sign, digits, and an optional
  point with digits, at least one digit in all. The other spellings that \<open>float\<close>
  accepts (exponents, \<open>inf\<close>, \<open>nan\<close>, underscores, surrounding blanks) contain
  characters that no match of \<open>PRICE_RE\<close> has; they are not modelled and
  fall under \<open>ValueError\<close> here.
\<close>

definition unsigned_float :: "string \<Rightarrow> error + real" where
  "unsigned_float s =
     (let ip = takeWhile (\<lambda>c. c \<in> set digits) s;
          rest = dropWhile (\<lambda>c. c \<in> set digits) s
      in case rest of
           [] \<Rightarrow> if ip = [] then Inl ValueError else Inr (real (digits_val ip))
         | c # fp \<Rightarrow>
             if c = CHR ''.'' \<and> list_all (\<lambda>d. d \<in> set digits) fp \<and> (ip \<noteq> [] \<or> fp \<noteq> [])
             then Inr (real (digits_val ip) + real (digits_val fp) / 10 ^ length fp)
             else Inl ValueError)"

definition py_float :: "string \<Rightarrow> error + real" where
  "py_float s =
     (case s of
        [] \<Rightarrow> Inl ValueError
      | c # t \<Rightarrow>
          if c = CHR ''-'' then bind_error (unsigned_float t) (\<lambda>v. Inr (- v))
          else if c = CHR ''+'' then unsigned_float t
          else unsigned_float s)"

section \<open>FrontierAgent.get_price\<close>

definition get_price :: "string \<Rightarrow> error + real" where
  "get_price text =
     (let text = filter (\<lambda>c. c \<noteq> CHR '','') (filter (\<lambda>c. c \<noteq> CHR ''$'') text)
      in case re_search PRICE_RE text of
           Some tok \<Rightarrow> py_float tok
         | None \<Rightarrow> Inr 0)"

section \<open>FrontierAgent\<close>

text \<open>
  The values a metadata field of the vector store can hold, and the results of a
  nearest-neighbour query: \<open>documents\<close> and \<open>metadatas\<close> hold one list per query
  embedding; a metadata entry is a dictionary from field names to values.
\<close>

datatype pyval =
    PyBool bool
  | PyInt int
  | PyFloat real
  | PyStr string

type_synonym metadata = "string \<rightharpoonup> pyval"

record query_result =
  documents :: "string list list"
  metadatas :: "metadata list list"

record generation_config =
  temperature :: int
  response_mime_type :: "string option"
  max_output_tokens :: "nat option"

text \<open>The reply of the generative model; reading \<open>response.text\<close> may raise.\<close>

datatype response = Response (response_text: "error + string")

type_synonym generative_model = "string \<Rightarrow> generation_config \<Rightarrow> error + response"

text \<open>
  The collaborators of a \<open>FrontierAgent\<close>: the sentence encoder, the collection of the
  vector store and the generative model, each of which may raise, and the rendering of
  \<^verbatim>\<open>{price:.2f}\<close>, which raises on a value that is not a number.
\<close>

record frontier_agent =
  encoder_encode :: "string list \<Rightarrow> error + real list list"
  collection_query :: "real list list \<Rightarrow> nat \<Rightarrow> error + query_result"
  model :: generative_model
  format_2f :: "pyval \<Rightarrow> error + string"

definition nl :: string where
  "nl = [CHR 0x0A]"

text \<open>\<open>xs[0]\<close> raises \<open>IndexError\<close> on the empty list.\<close>

fun first :: "'a list \<Rightarrow> error + 'a" where
  "first [] = Inl IndexError"
| "first (x # xs) = Inr x"

text \<open>\<open>d.get(key, default)\<close>\<close>

definition dict_get :: "('k \<rightharpoonup> 'v) \<Rightarrow> 'k \<Rightarrow> 'v \<Rightarrow> 'v" where
  "dict_get d k dflt = (case d k of Some v \<Rightarrow> v | None \<Rightarrow> dflt)"



definition find_similars :: "frontier_agent \<Rightarrow> string \<Rightarrow> error + string list \<times> pyval list" where
  "find_similars self description =
     bind_error (encoder_encode self [description]) (\<lambda>vector.
     bind_error (collection_query self vector 5) (\<lambda>results.
     bind_error (first (documents results)) (\<lambda>docs.
     bind_error (first (metadatas results)) (\<lambda>metas.
       Inr (docs, map (\<lambda>m. dict_get m ''price'' (dict_get m ''selling_price'' (PyFloat 0)))
                      metas)))))"





section \<open>ScannerAgent\<close>

text \<open>
  Modelled from the spec: the classes \<open>Deal\<close>, \<open>DealSelection\<close>, \<open>Opportunity\<close> and
  \<open>ScrapedDeal\<close> of \<open>src/agents/deals.py\<close>, which is not among the sources. A curated
  deal is a product description, a price and the originating url, as in the reply
  format of \<open>SYSTEM_PROMPT\<close>; a selection holds the list \<open>deals\<close>; a scraped
  candidate has a url, its raw descriptive text and the feed it came from. Of a memory
  entry \<open>fetch_deals\<close> reads \<open>opp.deal.url\<close> only.
\<close>

record deal =
  product_description :: string
  price :: real
  url :: string

record deal_selection =
  deals :: "deal list"

record opportunity =
  deal :: deal

record scraped_deal =
  url :: string
  details :: string
  feed :: string

text \<open>The values \<open>json.loads\<close> returns.\<close>

datatype json =
    JNull
  | JBool bool
  | JInt int
  | JFloat real
  | JStr string
  | JList "json list"
  | JDict "(string \<times> json) list"

text \<open>
  The collaborators of a \<open>ScannerAgent\<close>: \<open>ScrapedDeal.fetch\<close> and
  \<open>ScrapedDeal.describe\<close>, the generative model, \<open>json.loads\<close>, and the constructor
  call \<open>DealSelection(**parsed)\<close>. All of them but \<open>describe\<close> may raise.
\<close>

record scanner_agent =
  ScrapedDeal_fetch :: "string list option \<Rightarrow> error + scraped_deal list"
  describe :: "scraped_deal \<Rightarrow> string"
  model :: generative_model
  json_loads :: "string \<Rightarrow> error + json"
  DealSelection :: "json \<Rightarrow> error + deal_selection"

definition USER_PROMPT_PREFIX :: string where
  \<open>USER_PROMPT_PREFIX =
     ''Respond with the most promising 5 deals from this list, selecting those which have the most detailed, high quality product description and a clear price that is greater than 0.'' @ nl @
     ''Respond strictly in JSON, and only JSON. You should rephrase the description to be a summary of the product itself, not the terms of the deal.'' @ nl @
     ''Remember to respond with a paragraph of text in the product_description field for each of the 5 items that you select.'' @ nl @
     ''Be careful with products that are described as "$XXX off" or "reduced by $XXX" - this isn't the actual price of the product.'' @ nl @
     nl @
     ''Deals:'' @ nl\<close>

definition USER_PROMPT_SUFFIX :: string where
  "USER_PROMPT_SUFFIX =
     nl @ nl @ ''Strictly respond in JSON and include exactly 5 deals, no more.''"

text \<open>\<open>sep.join(xs)\<close>\<close>

fun join :: "string \<Rightarrow> string list \<Rightarrow> string" where
  "join sep [] = []"
| "join sep [x] = x"
| "join sep (x # y # ys) = x @ sep @ join sep (y # ys)"

text \<open>
  \<open>memory\<close> is read as a list of opportunities (\<open>opp.deal.url\<close>), whatever the
  annotation of \<open>scan\<close> says. An exception of \<open>ScrapedDeal.fetch\<close> propagates.
\<close>

definition fetch_deals ::
  "scanner_agent \<Rightarrow> opportunity list \<Rightarrow> string list option \<Rightarrow> error + scraped_deal list" where
  "fetch_deals self memory selected_feeds =
     (let urls = map (\<lambda>opp. deal.url (deal opp)) memory
      in bind_error (ScrapedDeal_fetch self selected_feeds) (\<lambda>scraped.
           Inr [scrape \<leftarrow> scraped. scraped_deal.url scrape \<notin> set urls]))"

definition make_user_prompt :: "scanner_agent \<Rightarrow> scraped_deal list \<Rightarrow> string" where
  "make_user_prompt self scraped =
     USER_PROMPT_PREFIX @ join (nl @ nl) (map (describe self) scraped) @ USER_PROMPT_SUFFIX"

definition scan_config :: generation_config where
  "scan_config =
     \<lparr>temperature = 0, response_mime_type = Some ''application/json'',
      max_output_tokens = None\<rparr>"

text \<open>The body of the \<open>try\<close> statement of \<open>scan\<close>.\<close>

definition scan_try :: "scanner_agent \<Rightarrow> string \<Rightarrow> error + deal_selection" where
  "scan_try self user_prompt =
     bind_error (scanner_agent.model self user_prompt scan_config) (\<lambda>response.
     bind_error (response_text response) (\<lambda>t.
     bind_error (json_loads self t) (\<lambda>parsed.
       DealSelection self parsed)))"

text \<open>
  \<open>scan\<close> returns its result together with the prompts it has sent to the generative
  model, in order. \<open>Inr None\<close> is the return value \<open>None\<close>; \<open>Inl e\<close> is an
  exception that leaves \<open>scan\<close>.
\<close>

definition scan ::
  "scanner_agent \<Rightarrow> opportunity list \<Rightarrow> string list option
     \<Rightarrow> (error + deal_selection option) \<times> string list" where
  "scan self memory selected_feeds =
     (case fetch_deals self memory selected_feeds of
        Inl e \<Rightarrow> (Inl e, [])
      | Inr scraped \<Rightarrow>
          if scraped = [] then (Inr None, [])
          else
            let user_prompt = make_user_prompt self scraped
            in (case scan_try self user_prompt of
                  Inl e \<Rightarrow> (Inr None, [user_prompt])
                | Inr result \<Rightarrow>
                    (Inr (Some (result\<lparr>deals := [d \<leftarrow> deals result. price d > 0]\<rparr>)),
                     [user_prompt])))"

section \<open>Sample collaborators\<close>

text \<open>
  Modelled from the spec: the constructor call \<open>DealSelection(**parsed)\<close> of
  \<open>src/agents/deals.py\<close>, which is not among the sources, for the sample agents
  below. \<open>parsed\<close> must be a dictionary (otherwise \<open>**\<close> raises \<open>TypeError\<close>) whose
  key \<open>deals\<close> holds a list of dictionaries with a string \<open>product_description\<close>, a
  number \<open>price\<close> and a string \<open>url\<close>, as in the reply format of \<open>SYSTEM_PROMPT\<close>;
  anything else is a validation error. Further keys are ignored; coercions that the
  validation library may apply to other values are not modelled.
\<close>

definition json_str :: "json option \<Rightarrow> error + string" where
  "json_str j = (case j of Some (JStr x) \<Rightarrow> Inr x | _ \<Rightarrow> Inl ValidationError)"

definition json_number :: "json option \<Rightarrow> error + real" where
  "json_number j =
     (case j of
        Some (JInt n) \<Rightarrow> Inr (real_of_int n)
      | Some (JFloat x) \<Rightarrow> Inr x
      | _ \<Rightarrow> Inl ValidationError)"

fun Deal_validate :: "json \<Rightarrow> error + deal" where
  "Deal_validate (JDict kvs) =
     bind_error (json_str (map_of kvs ''product_description'')) (\<lambda>d.
     bind_error (json_number (map_of kvs ''price'')) (\<lambda>p.
     bind_error (json_str (map_of kvs ''url'')) (\<lambda>u.
       Inr \<lparr>product_description = d, price = p, url = u\<rparr>)))"
| "Deal_validate _ = Inl ValidationError"

fun Deal_validate_all :: "json list \<Rightarrow> error + deal list" where
  "Deal_validate_all [] = Inr []"
| "Deal_validate_all (j # js) =
     bind_error (Deal_validate j) (\<lambda>d.
     bind_error (Deal_validate_all js) (\<lambda>ds. Inr (d # ds)))"

fun DealSelection_validate :: "json \<Rightarrow> error + deal_selection" where
  "DealSelection_validate (JDict kvs) =
     (case map_of kvs ''deals'' of
        Some (JList js) \<Rightarrow> bind_error (Deal_validate_all js) (\<lambda>ds. Inr \<lparr>deals = ds\<rparr>)
      | _ \<Rightarrow> Inl ValidationError)"
| "DealSelection_validate _ = Inl TypeError"

text \<open>
  \<open>json.loads\<close> and \<^verbatim>\<open>{price:.2f}\<close> on the texts and values of the samples: a table
  of their results there; outside the table the sample collaborator raises.
\<close>

definition json_loads_table :: "(string \<times> json) list \<Rightarrow> string \<Rightarrow> error + json" where
  "json_loads_table tab t = (case map_of tab t of Some j \<Rightarrow> Inr j | None \<Rightarrow> Inl JSONDecodeError)"

definition format_2f_table :: "(pyval \<times> string) list \<Rightarrow> pyval \<Rightarrow> error + string" where
  "format_2f_table tab v = (case map_of tab v of Some x \<Rightarrow> Inr x | None \<Rightarrow> Inl ValueError)"

definition candidate :: "string \<Rightarrow> scraped_deal" where
  "candidate u = \<lparr>url = u, details = ''Deal at '' @ u, feed = ''Electronics''\<rparr>"

definition known :: "string \<Rightarrow> opportunity" where
  "known u = \<lparr>deal = \<lparr>product_description = ''Known deal'', price = 50, url = u\<rparr>\<rparr>"

definition sample_scanner ::
  "scraped_deal list \<Rightarrow> error + response \<Rightarrow> (string \<times> json) list \<Rightarrow> scanner_agent" where
  "sample_scanner scraped reply tab =
     \<lparr>ScrapedDeal_fetch = (\<lambda>selected_feeds. Inr scraped),
      describe = (\<lambda>scrape. details scrape @ nl @ ''URL: '' @ scraped_deal.url scrape),
      model = (\<lambda>prompt config. reply),
      json_loads = json_loads_table tab,
      DealSelection = DealSelection_validate\<rparr>"

text \<open>Three replies of the model, each with the value \<open>json.loads\<close> gives for it.\<close>

definition five_text :: string where
  \<open>five_text =
     ''{"deals": ['' @
     ''{"product_description": "Noise-cancelling headphones", "price": 10, "url": "A"}, '' @
     ''{"product_description": "Robot vacuum", "price": 0, "url": "B"}, '' @
     ''{"product_description": "Espresso machine", "price": -5, "url": "C"}, '' @
     ''{"product_description": "Mechanical keyboard", "price": 20, "url": "D"}, '' @
     ''{"product_description": "4K monitor", "price": 30, "url": "E"}'' @
     '']}''\<close>

definition five_json :: json where
  "five_json =
     JDict [(''deals'', JList
       [JDict [(''product_description'', JStr ''Noise-cancelling headphones''), (''price'', JInt 10), (''url'', JStr ''A'')],
        JDict [(''product_description'', JStr ''Robot vacuum''), (''price'', JInt 0), (''url'', JStr ''B'')],
        JDict [(''product_description'', JStr ''Espresso machine''), (''price'', JInt (-5)), (''url'', JStr ''C'')],
        JDict [(''product_description'', JStr ''Mechanical keyboard''), (''price'', JInt 20), (''url'', JStr ''D'')],
        JDict [(''product_description'', JStr ''4K monitor''), (''price'', JInt 30), (''url'', JStr ''E'')]])]"

definition six_text :: string where
  \<open>six_text =
     ''{"deals": ['' @
     ''{"product_description": "Noise-cancelling headphones", "price": 10, "url": "A"}, '' @
     ''{"product_description": "Robot vacuum", "price": 15, "url": "B"}, '' @
     ''{"product_description": "Espresso machine", "price": 25, "url": "C"}, '' @
     ''{"product_description": "Mechanical keyboard", "price": 20, "url": "D"}, '' @
     ''{"product_description": "4K monitor", "price": 30, "url": "E"}, '' @
     ''{"product_description": "Standing desk", "price": 45, "url": "F"}'' @
     '']}''\<close>

definition six_json :: json where
  "six_json =
     JDict [(''deals'', JList
       [JDict [(''product_description'', JStr ''Noise-cancelling headphones''), (''price'', JInt 10), (''url'', JStr ''A'')],
        JDict [(''product_description'', JStr ''Robot vacuum''), (''price'', JInt 15), (''url'', JStr ''B'')],
        JDict [(''product_description'', JStr ''Espresso machine''), (''price'', JInt 25), (''url'', JStr ''C'')],
        JDict [(''product_description'', JStr ''Mechanical keyboard''), (''price'', JInt 20), (''url'', JStr ''D'')],
        JDict [(''product_description'', JStr ''4K monitor''), (''price'', JInt 30), (''url'', JStr ''E'')],
        JDict [(''product_description'', JStr ''Standing desk''), (''price'', JInt 45), (''url'', JStr ''F'')]])]"

definition free_text :: string where
  \<open>free_text =
     ''{"deals": ['' @
     ''{"product_description": "Newsletter signup", "price": 0, "url": "A"}, '' @
     ''{"product_description": "Trade-in credit", "price": -5, "url": "C"}'' @
     '']}''\<close>

definition free_json :: json where
  "free_json =
     JDict [(''deals'', JList
       [JDict [(''product_description'', JStr ''Newsletter signup''), (''price'', JInt 0), (''url'', JStr ''A'')],
        JDict [(''product_description'', JStr ''Trade-in credit''), (''price'', JInt (-5)), (''url'', JStr ''C'')]])]"

text \<open>
  The deals of the first two replies as \<open>DealSelection\<close> holds them, and those of the
  first reply that have a positive price.
\<close>

definition five_deals :: "deal list" where
  "five_deals =
     [\<lparr>product_description = ''Noise-cancelling headphones'', price = 10, url = ''A''\<rparr>,
      \<lparr>product_description = ''Robot vacuum'', price = 0, url = ''B''\<rparr>,
      \<lparr>product_description = ''Espresso machine'', price = - 5, url = ''C''\<rparr>,
      \<lparr>product_description = ''Mechanical keyboard'', price = 20, url = ''D''\<rparr>,
      \<lparr>product_description = ''4K monitor'', price = 30, url = ''E''\<rparr>]"

definition five_kept :: "deal list" where
  "five_kept =
     [\<lparr>product_description = ''Noise-cancelling headphones'', price = 10, url = ''A''\<rparr>,
      \<lparr>product_description = ''Mechanical keyboard'', price = 20, url = ''D''\<rparr>,
      \<lparr>product_description = ''4K monitor'', price = 30, url = ''E''\<rparr>]"


definition reply_table :: "(string \<times> json) list" where
  "reply_table = [(five_text, five_json), (six_text, six_json), (free_text, free_json)]"

definition sample_frontier :: "string list \<Rightarrow> metadata list \<Rightarrow> string \<Rightarrow> frontier_agent" where
  "sample_frontier docs metas reply =
     \<lparr>encoder_encode = (\<lambda>texts. Inr (map (\<lambda>t. [0.25, 0.5]) texts)),
      collection_query = (\<lambda>vector n. Inr \<lparr>documents = [docs], metadatas = [metas]\<rparr>),
      model = (\<lambda>prompt config. Inr (Response (Inr reply))),
      format_2f = format_2f_table [(PyFloat 129.99, ''129.99''), (PyInt 80, ''80.00''),
                                   (PyFloat 0, ''0.00'')]\<rparr>"

section \<open>The matcher finds only strings of the pattern\<close>




section \<open>Every match of the price pattern is a decimal literal\<close>













section \<open>Properties of get_price\<close>






section \<open>Numeric extraction\<close>

text \<open>
  C3: the claim says that \<open>get_price\<close> honors the sign of integer tokens as it does
  for decimal tokens. The sign belongs to the first alternative of the pattern only:
  on the text \<open>-42\<close> the decimal alternative fails, the integer alternative matches
  \<open>42\<close> one character later, and the result is 42.0, not -42.0.
\<close>

theorem get_price_integer_sign_dropped:
  "get_price ''-42'' = Inr 42 \<and> get_price ''-4.2'' = Inr (- 4.2)"
  by (simp add: get_price_def PRICE_RE_def Plus_def digits_def py_float_def
      unsigned_float_def digits_val_def digit_val_def bind_error_def)

text \<open>
  C4: on the four reference inputs of the specification, \<open>get_price\<close> returns
  1234.56 for \<open>$1,234.56\<close>, 42.0 for \<open>about 42 dollars\<close>, 0.0 for
  \<open>no price mentioned\<close> and -3.5 for \<open>-3.5% off\<close>.
\<close>

theorem get_price_reference_inputs:
  "get_price ''$1,234.56'' = Inr 1234.56
   \<and> get_price ''about 42 dollars'' = Inr 42
   \<and> get_price ''no price mentioned'' = Inr 0
   \<and> get_price ''-3.5% off'' = Inr (- 3.5)"
  by (simp add: get_price_def PRICE_RE_def Plus_def digits_def py_float_def
      unsigned_float_def digits_val_def digit_val_def bind_error_def)

section \<open>Price estimation\<close>

lemma bind_error_Inr:
  "bind_error m f = Inr y \<longleftrightarrow> (\<exists>x. m = Inr x \<and> f x = Inr y)"
  by (cases m) (simp_all add: bind_error_def)











section \<open>Neighbour prices\<close>

lemma neighbor_price_cases:
  "dict_get m ''price'' (dict_get m ''selling_price'' (PyFloat 0)) =
     (case m ''price'' of
        Some v \<Rightarrow> v
      | None \<Rightarrow> (case m ''selling_price'' of Some v \<Rightarrow> v | None \<Rightarrow> PyFloat 0))"
  by (simp add: dict_get_def split: option.splits)

text \<open>
  C9: for the metadata dictionary of every retrieved neighbour, the price that
  \<open>find_similars\<close> extracts is the value of the field \<open>price\<close> when it is present,
  otherwise the value of the field \<open>selling_price\<close> when that is present, otherwise
  0.0; the prices come in the order of the neighbours.
\<close>

theorem find_similars_prices:
  assumes "find_similars self description = Inr (docs, prices)"
  shows "\<exists>vector results metas.
           encoder_encode self [description] = Inr vector
           \<and> collection_query self vector 5 = Inr results
           \<and> first (metadatas results) = Inr metas
           \<and> length prices = length metas
           \<and> (\<forall>i < length metas.
                 prices ! i =
                   (case (metas ! i) ''price'' of
                      Some v \<Rightarrow> v
                    | None \<Rightarrow>
                        (case (metas ! i) ''selling_price'' of
                           Some v \<Rightarrow> v
                         | None \<Rightarrow> PyFloat 0)))"
proof -
  from assms obtain vector results ds metas
    where enc: "encoder_encode self [description] = Inr vector"
      and qry: "collection_query self vector 5 = Inr results"
      and "first (documents results) = Inr ds"
      and metas: "first (metadatas results) = Inr metas"
      and prices: "prices =
        map (\<lambda>m. dict_get m ''price'' (dict_get m ''selling_price'' (PyFloat 0))) metas"
    unfolding find_similars_def bind_error_Inr by auto
  from prices have "length prices = length metas" by simp
  moreover from prices have "\<forall>i < length metas.
      prices ! i =
        (case (metas ! i) ''price'' of
           Some v \<Rightarrow> v
         | None \<Rightarrow>
             (case (metas ! i) ''selling_price'' of Some v \<Rightarrow> v | None \<Rightarrow> PyFloat 0))"
    by (simp add: neighbor_price_cases)
  ultimately show ?thesis using enc qry metas by blast
qed

text \<open>Three neighbours: both fields, the fallback field only, neither field.\<close>

theorem find_similars_prices_witness:
  "find_similars
     (sample_frontier [''Laptop'', ''Phone'', ''Camera'']
        [[''price'' \<mapsto> PyFloat 129.99, ''selling_price'' \<mapsto> PyInt 3],
         [''selling_price'' \<mapsto> PyInt 80],
         [''brand'' \<mapsto> PyStr ''Acme'']]
        ''129.50'')
     ''A tablet''
   = Inr ([''Laptop'', ''Phone'', ''Camera''], [PyFloat 129.99, PyInt 80, PyFloat 0])
   \<and> length [PyFloat 129.99, PyInt 80, PyFloat 0] = (3::nat)"
proof -
  let ?A = "sample_frontier [''Laptop'', ''Phone'', ''Camera'']
        [[''price'' \<mapsto> PyFloat 129.99, ''selling_price'' \<mapsto> PyInt 3],
         [''selling_price'' \<mapsto> PyInt 80],
         [''brand'' \<mapsto> PyStr ''Acme'']]
        ''129.50''"
  have h: "find_similars ?A ''A tablet''
      = Inr ([''Laptop'', ''Phone'', ''Camera''], [PyFloat 129.99, PyInt 80, PyFloat 0])"
    by (simp add: find_similars_def sample_frontier_def bind_error_def dict_get_def)
  from find_similars_prices[OF h] h show ?thesis by simp
qed


section \<open>Deduplication\<close>

text \<open>
  C6: for every candidate list and every memory, \<open>fetch_deals\<close> returns exactly the
  fetched candidates whose url is not the url of a memory entry, in their original
  order.
\<close>

theorem fetch_deals_filter:
  assumes "ScrapedDeal_fetch self selected_feeds = Inr scraped"
  shows "fetch_deals self memory selected_feeds =
           Inr (filter (\<lambda>c. \<forall>opp \<in> set memory. deal.url (deal opp) \<noteq> scraped_deal.url c)
                  scraped)
         \<and> (\<exists>result. fetch_deals self memory selected_feeds = Inr result
               \<and> subseq result scraped)"
proof -
  from assms have "fetch_deals self memory selected_feeds =
      Inr (filter (\<lambda>c. scraped_deal.url c \<notin> set (map (\<lambda>opp. deal.url (deal opp)) memory))
             scraped)"
    by (simp add: fetch_deals_def bind_error_def)
  also have "filter (\<lambda>c. scraped_deal.url c \<notin> set (map (\<lambda>opp. deal.url (deal opp)) memory))
               scraped
      = filter (\<lambda>c. \<forall>opp \<in> set memory. deal.url (deal opp) \<noteq> scraped_deal.url c) scraped"
    by (rule filter_cong) (auto simp: image_iff)
  finally show ?thesis by simp
qed

text \<open>Known urls A and B, candidates A, C, B, D: the result is C, D.\<close>

theorem fetch_deals_filter_witness:
  "fetch_deals
     (sample_scanner (map candidate [''A'', ''C'', ''B'', ''D''])
        (Inr (Response (Inr five_text))) reply_table)
     [known ''A'', known ''B''] None
   = Inr [candidate ''C'', candidate ''D'']"
  using fetch_deals_filter[of
      "sample_scanner (map candidate [''A'', ''C'', ''B'', ''D''])
         (Inr (Response (Inr five_text))) reply_table"
      None "map candidate [''A'', ''C'', ''B'', ''D'']" "[known ''A'', known ''B'']"]
  by (simp add: sample_scanner_def candidate_def known_def)

section \<open>Curation\<close>

lemma scan_Some:
  assumes "fst (scan self memory selected_feeds) = Inr (Some sel)"
  shows "\<exists>scraped result.
           fetch_deals self memory selected_feeds = Inr scraped \<and> scraped \<noteq> []
           \<and> scan_try self (make_user_prompt self scraped) = Inr result
           \<and> sel = result\<lparr>deals := filter (\<lambda>d. 0 < price d) (deals result)\<rparr>"
  using assms
  by (auto simp: scan_def Let_def split: sum.splits if_splits)

lemma five_validated: "DealSelection_validate five_json = Inr \<lparr>deals = five_deals\<rparr>"
  by (simp add: five_json_def five_deals_def bind_error_def json_str_def json_number_def)


lemma free_validated:
  "DealSelection_validate free_json =
     Inr \<lparr>deals = [\<lparr>product_description = ''Newsletter signup'', price = 0, url = ''A''\<rparr>,
                    \<lparr>product_description = ''Trade-in credit'', price = - 5, url = ''C''\<rparr>]\<rparr>"
  by (simp add: free_json_def bind_error_def json_str_def json_number_def)

lemma reply_table_lookup:
  "json_loads_table reply_table five_text = Inr five_json"
  "json_loads_table reply_table six_text = Inr six_json"
  "json_loads_table reply_table free_text = Inr free_json"
  by (simp_all add: json_loads_table_def reply_table_def five_text_def six_text_def
      free_text_def)

lemma sample_fetch_all:
  "fetch_deals (sample_scanner scraped reply tab) [] selected_feeds = Inr scraped"
  by (simp add: fetch_deals_def bind_error_def sample_scanner_def)

lemma sample_scan_try:
  "scan_try (sample_scanner scraped (Inr (Response (Inr t))) tab) user_prompt =
     bind_error (json_loads_table tab t) DealSelection_validate"
  by (simp add: scan_try_def bind_error_def sample_scanner_def)

lemma five_scan:
  "fst (scan (sample_scanner (map candidate [''A'', ''B'', ''C'', ''D'', ''E'', ''F''])
               (Inr (Response (Inr five_text))) reply_table) [] None)
   = Inr (Some \<lparr>deals = five_kept\<rparr>)"
  by (simp add: scan_def sample_fetch_all sample_scan_try reply_table_lookup five_validated
      bind_error_def five_deals_def five_kept_def)


text \<open>
  C8: if the deduplicated candidate list is empty, \<open>scan\<close> returns \<open>None\<close> and has
  sent no prompt to the generative model, whatever the memory.
\<close>

theorem scan_no_new_deals:
  assumes "fetch_deals self memory selected_feeds = Inr []"
  shows "scan self memory selected_feeds = (Inr None, [])"
  using assms by (simp add: scan_def)

text \<open>Every candidate is already known.\<close>

theorem scan_no_new_deals_witness:
  "scan
     (sample_scanner (map candidate [''A'', ''B''])
        (Inr (Response (Inr five_text))) reply_table)
     [known ''A'', known ''B''] None
   = (Inr None, [])"
proof -
  have "fetch_deals
     (sample_scanner (map candidate [''A'', ''B''])
        (Inr (Response (Inr five_text))) reply_table)
     [known ''A'', known ''B''] None = Inr []"
    by (simp add: fetch_deals_def bind_error_def sample_scanner_def candidate_def known_def)
  then show ?thesis by (rule scan_no_new_deals)
qed

text \<open>
  C7: once the candidates are fetched, an exception of the model call, of reading the
  reply text, of \<open>json.loads\<close> or of the \<open>DealSelection\<close> constructor is caught,
  and \<open>scan\<close> returns \<open>None\<close>.
\<close>

theorem scan_catches_errors:
  assumes "fetch_deals self memory selected_feeds = Inr scraped"
    and "scanner_agent.model self (make_user_prompt self scraped) scan_config = Inl e
         \<or> (\<exists>response.
               scanner_agent.model self (make_user_prompt self scraped) scan_config
                 = Inr response
               \<and> (response_text response = Inl e
                  \<or> (\<exists>t. response_text response = Inr t
                        \<and> (json_loads self t = Inl e
                           \<or> (\<exists>parsed. json_loads self t = Inr parsed
                                 \<and> DealSelection self parsed = Inl e)))))"
  shows "fst (scan self memory selected_feeds) = Inr None"
proof -
  from assms(2) have "scan_try self (make_user_prompt self scraped) = Inl e"
    by (auto simp: scan_try_def bind_error_def)
  with assms(1) show ?thesis by (simp add: scan_def Let_def)
qed


text \<open>
  A failing model call, a reply that is not JSON, and a JSON reply that is not a
  dictionary.
\<close>

theorem scan_catches_errors_witness:
  "fst (scan (sample_scanner (map candidate [''A'', ''C''])
                (Inl (BackendError ''429 quota exceeded'')) reply_table)
          [known ''A''] None) = Inr None
   \<and> fst (scan (sample_scanner (map candidate [''A'', ''C''])
                  (Inr (Response (Inr ''Sorry, no deals today''))) reply_table)
            [known ''A''] None) = Inr None
   \<and> fst (scan (sample_scanner (map candidate [''A'', ''C''])
                  (Inr (Response (Inr ''[]''))) [(''[]'', JList [])])
            [known ''A''] None) = Inr None"
proof -
  let ?A1 = "sample_scanner (map candidate [''A'', ''C''])
                (Inl (BackendError ''429 quota exceeded'')) reply_table"
  let ?A2 = "sample_scanner (map candidate [''A'', ''C''])
                (Inr (Response (Inr ''Sorry, no deals today''))) reply_table"
  let ?A3 = "sample_scanner (map candidate [''A'', ''C''])
                (Inr (Response (Inr ''[]''))) [(''[]'', JList [])]"
  have f1: "fetch_deals ?A1 [known ''A''] None = Inr [candidate ''C'']"
    and f2: "fetch_deals ?A2 [known ''A''] None = Inr [candidate ''C'']"
    and f3: "fetch_deals ?A3 [known ''A''] None = Inr [candidate ''C'']"
    by (simp_all add: fetch_deals_def bind_error_def sample_scanner_def candidate_def known_def)
  have e1: "scanner_agent.model ?A1 (make_user_prompt ?A1 [candidate ''C'']) scan_config
      = Inl (BackendError ''429 quota exceeded'')"
    by (simp add: sample_scanner_def)
  have e2: "scanner_agent.model ?A2 (make_user_prompt ?A2 [candidate ''C'']) scan_config
      = Inr (Response (Inr ''Sorry, no deals today''))"
    "json_loads ?A2 ''Sorry, no deals today'' = Inl JSONDecodeError"
    by (simp_all add: sample_scanner_def json_loads_table_def reply_table_def
        five_text_def six_text_def free_text_def)
  have e3: "scanner_agent.model ?A3 (make_user_prompt ?A3 [candidate ''C'']) scan_config
      = Inr (Response (Inr ''[]''))"
    "json_loads ?A3 ''[]'' = Inr (JList [])"
    "DealSelection ?A3 (JList []) = Inl TypeError"
    by (simp_all add: sample_scanner_def json_loads_table_def)
  from e1 have "fst (scan ?A1 [known ''A''] None) = Inr None"
    by (intro scan_catches_errors[OF f1]) simp
  moreover from e2 have "fst (scan ?A2 [known ''A''] None) = Inr None"
    by (intro scan_catches_errors[OF f2, where e = JSONDecodeError]) simp
  moreover from e3 have "fst (scan ?A3 [known ''A''] None) = Inr None"
    by (intro scan_catches_errors[OF f3, where e = TypeError]) simp
  ultimately show ?thesis by simp
qed




text \<open>
  C2: the deals of a selection that \<open>scan\<close> returns are exactly the deals of the
  parsed selection whose price is strictly greater than 0, in their original order;
  hence every deal of a result other than \<open>None\<close> has a price above 0.
\<close>

theorem scan_keeps_positive_prices:
  assumes "fst (scan self memory selected_feeds) = Inr (Some sel)"
  shows "(\<exists>scraped result.
            fetch_deals self memory selected_feeds = Inr scraped
            \<and> scan_try self (make_user_prompt self scraped) = Inr result
            \<and> deals sel = filter (\<lambda>d. 0 < price d) (deals result))
         \<and> (\<forall>d \<in> set (deals sel). 0 < price d)"
proof -
  from scan_Some[OF assms] obtain scraped result
    where f: "fetch_deals self memory selected_feeds = Inr scraped"
      and t: "scan_try self (make_user_prompt self scraped) = Inr result"
      and s: "sel = result\<lparr>deals := filter (\<lambda>d. 0 < price d) (deals result)\<rparr>"
    by blast
  from s have d: "deals sel = filter (\<lambda>d. 0 < price d) (deals result)" by simp
  then have "\<forall>d \<in> set (deals sel). 0 < price d" by simp
  with f t d show ?thesis by blast
qed

text \<open>
  The parsed selection has the prices 10, 0, -5, 20, 30; the result keeps the first,
  fourth and fifth deal.
\<close>

theorem scan_keeps_positive_prices_witness:
  "DealSelection_validate five_json = Inr \<lparr>deals = five_deals\<rparr>
   \<and> map price five_deals = [10, 0, - 5, 20, 30]
   \<and> fst (scan (sample_scanner (map candidate [''A'', ''B'', ''C'', ''D'', ''E'', ''F''])
                 (Inr (Response (Inr five_text))) reply_table) [] None)
     = Inr (Some \<lparr>deals = five_kept\<rparr>)
   \<and> map price five_kept = [10, 20, 30]
   \<and> five_kept = [five_deals ! 0, five_deals ! 3, five_deals ! 4]"
  using scan_keeps_positive_prices[OF five_scan] five_scan five_validated
  by (simp add: five_deals_def five_kept_def)

text \<open>
  C10: when the reply parses and validates and every parsed deal has a price of at
  most 0, \<open>scan\<close> returns a selection with no deals, which is not \<open>None\<close>.
\<close>

theorem scan_empty_selection:
  assumes "fetch_deals self memory selected_feeds = Inr scraped"
    and "scraped \<noteq> []"
    and "scan_try self (make_user_prompt self scraped) = Inr result"
    and "\<forall>d \<in> set (deals result). price d \<le> 0"
  shows "fst (scan self memory selected_feeds) = Inr (Some (result\<lparr>deals := []\<rparr>))
         \<and> fst (scan self memory selected_feeds) \<noteq> Inr None"
proof -
  from assms(4) have "filter (\<lambda>d. 0 < price d) (deals result) = []"
    by (auto simp: filter_empty_conv)
  with assms(1-3) show ?thesis by (simp add: scan_def Let_def)
qed

text \<open>A reply with two deals, priced 0 and -5.\<close>

theorem scan_empty_selection_witness:
  "fst (scan (sample_scanner (map candidate [''A'', ''C''])
               (Inr (Response (Inr free_text))) reply_table) [] None)
   = Inr (Some \<lparr>deals = []\<rparr>)"
proof -
  let ?A = "sample_scanner (map candidate [''A'', ''C''])
               (Inr (Response (Inr free_text))) reply_table"
  have f: "fetch_deals ?A [] None = Inr (map candidate [''A'', ''C''])"
    by (rule sample_fetch_all)
  have t: "scan_try ?A (make_user_prompt ?A (map candidate [''A'', ''C'']))
      = Inr \<lparr>deals = [\<lparr>product_description = ''Newsletter signup'', price = 0, url = ''A''\<rparr>,
                     \<lparr>product_description = ''Trade-in credit'', price = - 5, url = ''C''\<rparr>]\<rparr>"
    by (simp add: sample_scan_try reply_table_lookup free_validated bind_error_def)
  from scan_empty_selection[OF f _ t] show ?thesis by simp
qed

end
